theory Spec2Isabelle
  imports Main "HOL-Library.Word" "HOL-Library.Sublist"
begin

section \<open>Strings, faults and the JSON service\<close>

text \<open>
  A JavaScript string is a sequence of UTF-16 code units. \<open>js\<close> writes a literal:
  \<open>js ''a/b''\<close> is the string \<^verbatim>\<open>"a/b"\<close>.
\<close>

type_synonym jsstring = "16 word list"

definition js :: "string \<Rightarrow> jsstring" where
  "js s = map (\<lambda>c. of_nat (of_char c)) s"

definition slash :: "16 word" where
  "slash = 0x2F"

text \<open>
  The exceptions that the modelled code can meet: a \<open>TypeError\<close> (a method called on
  \<open>null\<close>, \<open>JSON.stringify\<close> on a cyclic value), a \<open>SyntaxError\<close> (\<open>JSON.parse\<close> on text
  that is not JSON) and the \<open>QuotaExceededError\<close> of a storage that is full.
\<close>

datatype fault = TypeError | SyntaxError | QuotaExceededError

text \<open>
  What \<open>JSON.stringify\<close> returns when it does not throw, and what a storage holds: a string,
  or \<open>undefined\<close> (\<open>JSON.stringify\<close> returns \<open>undefined\<close> for \<open>undefined\<close> itself, for a function
  and for a symbol).
\<close>

datatype jstext = Undefined | Str jsstring

text \<open>
  \<open>JSON.stringify\<close> and \<open>JSON.parse\<close> belong to the platform, not to the library: they
  are a parameter of the model. \<open>'v\<close> is the type of the values handed to the facade
  (\<open>value: any\<close>). \<open>JSON.parse\<close> takes the string that its argument converts to.
\<close>

record 'v JSON =
  JSON_stringify :: "'v \<Rightarrow> fault + jstext"
  JSON_parse :: "jsstring \<Rightarrow> fault + 'v"

text \<open>
  String conversion of a value that is a string or \<open>null\<close>, as a template literal, a
  property access and \<open>RegExp.prototype.test\<close> perform it: \<open>null\<close> becomes \<^verbatim>\<open>"null"\<close>.
\<close>

definition ToString :: "jsstring option \<Rightarrow> jsstring" where
  "ToString v = (case v of None \<Rightarrow> js ''null'' | Some s \<Rightarrow> s)"

text \<open>
  The same conversion for what \<open>getItem\<close> returns: \<open>null\<close>, \<open>undefined\<close> or a string.
\<close>

definition ToString_item :: "jstext option \<Rightarrow> jsstring" where
  "ToString_item v =
     (case v of None \<Rightarrow> js ''null'' | Some Undefined \<Rightarrow> js ''undefined'' | Some (Str s) \<Rightarrow> s)"

text \<open>\<open>s.startsWith(p)\<close> and \<open>s.substr(n)\<close> with \<open>n\<close> a natural number.\<close>

definition startsWith :: "jsstring \<Rightarrow> jsstring \<Rightarrow> bool" where
  "startsWith s p = (take (length p) s = p)"

definition substr :: "jsstring \<Rightarrow> nat \<Rightarrow> jsstring" where
  "substr s n = drop n s"

text \<open>
  \<^verbatim>\<open>new RegExp('.+\\/.+').test(key)\<close>. The expression is not anchored, and \<open>.\<close> matches
  every code unit except the four line terminators. So the test succeeds exactly when
  some \<open>/\<close> of the string stands between two code units that are not line terminators.
\<close>

definition isLineTerminator :: "16 word \<Rightarrow> bool" where
  "isLineTerminator c = (c = 0x0A \<or> c = 0x0D \<or> c = 0x2028 \<or> c = 0x2029)"

fun RegExp_test :: "jsstring \<Rightarrow> bool" where
  "RegExp_test (a # b # c # s) =
     ((\<not> isLineTerminator a \<and> b = slash \<and> \<not> isLineTerminator c) \<or> RegExp_test (b # c # s))"
| "RegExp_test _ = False"

section \<open>The Storage interface and MemoryStorage\<close>

text \<open>
  The \<open>Storage\<close> interface, as the facade uses it. The contents of a storage are a state of type
  \<open>'st\<close>, passed explicitly, so that several facades can work on one storage. \<open>setItem\<close> and
  \<open>removeItem\<close> return the contents after the call, and the exception when they threw.
  At run time \<open>setItem\<close> can get \<open>undefined\<close> as its value (from \<open>JSON.stringify\<close>) and
  \<open>removeItem\<close> can get \<open>null\<close> as its key (from \<open>clear\<close> of the facade); \<open>getItem\<close> returns
  \<open>null\<close> or what the storage holds.
\<close>

record 'st Storage =
  Storage_length :: "'st \<Rightarrow> nat"
  Storage_getItem :: "'st \<Rightarrow> jsstring \<Rightarrow> jstext option"
  Storage_key :: "'st \<Rightarrow> int \<Rightarrow> jsstring option"
  Storage_removeItem :: "'st \<Rightarrow> jsstring option \<Rightarrow> 'st \<times> fault option"
  Storage_setItem :: "'st \<Rightarrow> jsstring \<Rightarrow> jstext \<Rightarrow> 'st \<times> fault option"

text \<open>
  \<open>internalItems\<close> of \<open>MemoryStorage\<close> is a JavaScript \<open>Map\<close>: its entries in insertion
  order. \<open>Map.set\<close> on a key that is present keeps its position; \<open>Map.get\<close> on a key that is
  absent returns \<open>undefined\<close>.
\<close>

type_synonym items = "(jsstring \<times> jstext) list"

definition Map_has :: "items \<Rightarrow> jsstring \<Rightarrow> bool" where
  "Map_has m k = (k \<in> set (map fst m))"

definition Map_get :: "items \<Rightarrow> jsstring \<Rightarrow> jstext" where
  "Map_get m k = (case map_of m k of None \<Rightarrow> Undefined | Some v \<Rightarrow> v)"

definition Map_set :: "items \<Rightarrow> jsstring \<Rightarrow> jstext \<Rightarrow> items" where
  "Map_set m k v =
     (if Map_has m k then map (\<lambda>e. if fst e = k then (k, v) else e) m else m @ [(k, v)])"

definition Map_delete :: "items \<Rightarrow> jsstring \<Rightarrow> items" where
  "Map_delete m k = filter (\<lambda>e. fst e \<noteq> k) m"

definition MemoryStorage_length :: "items \<Rightarrow> nat" where
  "MemoryStorage_length m = length m"

definition MemoryStorage_getItem :: "items \<Rightarrow> jsstring \<Rightarrow> jstext option" where
  "MemoryStorage_getItem m k = (if Map_has m k then Some (Map_get m k) else None)"

text \<open>
  \<^verbatim>\<open>Array.from(this.internalItems.keys())[index] || null\<close>: an index out of range reads
  \<open>undefined\<close>, and the empty string is falsy like \<open>undefined\<close>, so both give \<open>null\<close>.
\<close>

definition MemoryStorage_key :: "items \<Rightarrow> int \<Rightarrow> jsstring option" where
  "MemoryStorage_key m index =
     (if 0 \<le> index \<and> index < int (length m)
      then (let k = fst (m ! nat index) in if k = [] then None else Some k)
      else None)"

definition MemoryStorage_removeItem :: "items \<Rightarrow> jsstring \<Rightarrow> items" where
  "MemoryStorage_removeItem m k = Map_delete m k"

definition MemoryStorage_setItem :: "items \<Rightarrow> jsstring \<Rightarrow> jstext \<Rightarrow> items" where
  "MemoryStorage_setItem m k v = Map_set m k v"

text \<open>
  \<open>MemoryStorage\<close> as a \<open>Storage\<close>. No method of it throws. \<open>removeItem(null)\<close> is
  \<open>Map.delete(null)\<close>, which finds nothing, since every key of the map is a string.
\<close>

definition MemoryStorage :: "items Storage" where
  "MemoryStorage =
     \<lparr> Storage_length = MemoryStorage_length,
       Storage_getItem = MemoryStorage_getItem,
       Storage_key = MemoryStorage_key,
       Storage_removeItem =
         (\<lambda>m k. (case k of None \<Rightarrow> m | Some k' \<Rightarrow> MemoryStorage_removeItem m k', None)),
       Storage_setItem = (\<lambda>m k v. (MemoryStorage_setItem m k v, None)) \<rparr>"

section \<open>WebStorage\<close>

record 'st WebStorage =
  storage :: "'st Storage"
  currentNamespace :: "jsstring option"

text \<open>
  The constructor: \<^verbatim>\<open>this.currentNamespace = namespace || null\<close>. The argument is \<open>None\<close>
  when it is left out; the empty string is falsy.
\<close>

definition WebStorage_constructor :: "'st Storage \<Rightarrow> jsstring option \<Rightarrow> 'st WebStorage" where
  "WebStorage_constructor s namespace =
     \<lparr> storage = s,
       currentNamespace =
         (case namespace of None \<Rightarrow> None | Some n \<Rightarrow> if n = [] then None else Some n) \<rparr>"

definition namespace :: "'st WebStorage \<Rightarrow> jsstring option" where
  "namespace ws = currentNamespace ws"

definition hasNamespace :: "'st WebStorage \<Rightarrow> bool" where
  "hasNamespace ws = (namespace ws \<noteq> None)"

definition keyWithNamespace :: "'st WebStorage \<Rightarrow> jsstring \<Rightarrow> jsstring" where
  "keyWithNamespace ws key =
     (if hasNamespace ws then ToString (namespace ws) @ [slash] @ key else key)"

text \<open>
  The loop of \<open>getStorageKeys\<close>. \<open>storage.key(index)\<close> may be \<open>null\<close>: with a namespace,
  \<open>key.startsWith\<close> then throws a \<open>TypeError\<close>; without one, \<open>test\<close> converts \<open>null\<close> to a
  string and \<open>null\<close> itself is pushed. The result is an array whose elements are strings or
  \<open>null\<close>.
\<close>

function getStorageKeys_loop ::
  "'st WebStorage \<Rightarrow> 'st \<Rightarrow> nat \<Rightarrow> jsstring option list \<Rightarrow> fault + jsstring option list" where
  "getStorageKeys_loop ws st index keys =
     (if index < Storage_length (storage ws) st then
        (let key = Storage_key (storage ws) st (int index) in
           case namespace ws of
             Some n \<Rightarrow>
               (case key of
                  None \<Rightarrow> Inl TypeError
                | Some k \<Rightarrow>
                    if startsWith k (n @ [slash])
                    then getStorageKeys_loop ws st (index + 1)
                           (keys @ [Some (substr k (length n + 1))])
                    else getStorageKeys_loop ws st (index + 1) keys)
           | None \<Rightarrow>
               if \<not> RegExp_test (ToString key)
               then getStorageKeys_loop ws st (index + 1) (keys @ [key])
               else getStorageKeys_loop ws st (index + 1) keys)
      else Inr keys)"
  by pat_completeness auto
termination
  by (relation "measure (\<lambda>(ws, st, index, keys). Storage_length (storage ws) st - index)") auto

definition getStorageKeys :: "'st WebStorage \<Rightarrow> 'st \<Rightarrow> fault + jsstring option list" where
  "getStorageKeys ws st = getStorageKeys_loop ws st 0 []"

definition WebStorage_length :: "'st WebStorage \<Rightarrow> 'st \<Rightarrow> fault + nat" where
  "WebStorage_length ws st =
     (case getStorageKeys ws st of Inl e \<Rightarrow> Inl e | Inr keys \<Rightarrow> Inr (length keys))"

definition WebStorage_get ::
  "'v JSON \<Rightarrow> 'st WebStorage \<Rightarrow> 'st \<Rightarrow> jsstring \<Rightarrow> 'v \<Rightarrow> fault + 'v" where
  "WebStorage_get json ws st key defaultValue =
     (if Storage_getItem (storage ws) st (keyWithNamespace ws key) \<noteq> None
      then JSON_parse json
             (ToString_item (Storage_getItem (storage ws) st (keyWithNamespace ws key)))
      else Inr defaultValue)"

text \<open>
  \<open>key(index)\<close> reads the array of keys at \<open>index\<close>: an element (a string or \<open>null\<close>), or
  \<open>undefined\<close> outside the array.
\<close>

datatype key_result = KUndefined | KNull | KString jsstring

definition WebStorage_key :: "'st WebStorage \<Rightarrow> 'st \<Rightarrow> int \<Rightarrow> fault + key_result" where
  "WebStorage_key ws st index =
     (case getStorageKeys ws st of
        Inl e \<Rightarrow> Inl e
      | Inr keys \<Rightarrow>
          Inr (if 0 \<le> index \<and> index < int (length keys)
               then (case keys ! nat index of None \<Rightarrow> KNull | Some k \<Rightarrow> KString k)
               else KUndefined))"

definition WebStorage_keys :: "'st WebStorage \<Rightarrow> 'st \<Rightarrow> fault + jsstring option list" where
  "WebStorage_keys ws st = getStorageKeys ws st"

definition WebStorage_has :: "'st WebStorage \<Rightarrow> 'st \<Rightarrow> jsstring \<Rightarrow> bool" where
  "WebStorage_has ws st key =
     (Storage_getItem (storage ws) st (keyWithNamespace ws key) \<noteq> None)"

text \<open>
  \<open>set\<close>: the body of the \<open>try\<close> block evaluates \<open>JSON.stringify(value)\<close> and, when that
  did not throw, calls \<open>setItem\<close> with what it returned; the \<open>catch\<close> clause takes every
  exception. The result is how the promise settles (\<open>Inr\<close> its value, \<open>Inl\<close> a rejection) and
  the storage afterwards.
\<close>

definition WebStorage_set_try ::
  "'v JSON \<Rightarrow> 'st WebStorage \<Rightarrow> 'st \<Rightarrow> jsstring \<Rightarrow> 'v \<Rightarrow> 'st \<times> fault option" where
  "WebStorage_set_try json ws st key val =
     (case JSON_stringify json val of
        Inl e \<Rightarrow> (st, Some e)
      | Inr text \<Rightarrow> Storage_setItem (storage ws) st (keyWithNamespace ws key) text)"

definition WebStorage_set ::
  "'v JSON \<Rightarrow> 'st WebStorage \<Rightarrow> 'st \<Rightarrow> jsstring \<Rightarrow> 'v \<Rightarrow> (fault + bool) \<times> 'st" where
  "WebStorage_set json ws st key val =
     (case WebStorage_set_try json ws st key val of
        (st', None) \<Rightarrow> (Inr True, st')
      | (st', Some exception) \<Rightarrow> (Inr False, st'))"

text \<open>
  \<open>clear\<close> removes \<open>keyWithNamespace(key)\<close> for every element of the array of keys. For
  an element \<open>null\<close>, \<open>keyWithNamespace\<close> gives \<open>null\<close> without a namespace, and the
  template literal gives \<^verbatim>\<open>"<namespace>/null"\<close> with one.
\<close>

definition keyWithNamespace_element :: "'st WebStorage \<Rightarrow> jsstring option \<Rightarrow> jsstring option" where
  "keyWithNamespace_element ws key =
     (case key of
        Some k \<Rightarrow> Some (keyWithNamespace ws k)
      | None \<Rightarrow> if hasNamespace ws then Some (keyWithNamespace ws (ToString None)) else None)"

fun WebStorage_clear_loop ::
  "'st WebStorage \<Rightarrow> 'st \<Rightarrow> jsstring option list \<Rightarrow> 'st \<times> fault option" where
  "WebStorage_clear_loop ws st [] = (st, None)"
| "WebStorage_clear_loop ws st (key # keys) =
     (case Storage_removeItem (storage ws) st (keyWithNamespace_element ws key) of
        (st', Some e) \<Rightarrow> (st', Some e)
      | (st', None) \<Rightarrow> WebStorage_clear_loop ws st' keys)"

text \<open>The storage after \<open>clear\<close>, and the exception when it threw.\<close>

definition WebStorage_clear :: "'st WebStorage \<Rightarrow> 'st \<Rightarrow> 'st \<times> fault option" where
  "WebStorage_clear ws st =
     (case getStorageKeys ws st of
        Inl e \<Rightarrow> (st, Some e)
      | Inr keys \<Rightarrow> WebStorage_clear_loop ws st keys)"

text \<open>
  The names for which \<^verbatim>\<open>key in target\<close> holds: the two fields of the object, the members of
  the class (\<open>private\<close> ones too: the modifier is gone at run time) and the members that every
  object inherits from \<open>Object.prototype\<close>.
\<close>

definition WebStorage_members :: "jsstring list" where
  "WebStorage_members = map js
     [''storage'', ''currentNamespace'', ''constructor'', ''hasNamespace'', ''namespace'',
      ''length'', ''get'', ''key'', ''keys'', ''has'', ''set'', ''delete'', ''clear'',
      ''keyWithNamespace'', ''getStorageKeys'', ''createProxy'']"

definition Object_prototype_members :: "jsstring list" where
  "Object_prototype_members = map js
     [''constructor'', ''hasOwnProperty'', ''isPrototypeOf'', ''propertyIsEnumerable'',
      ''toLocaleString'', ''toString'', ''valueOf'', ''__proto__'', ''__defineGetter__'',
      ''__defineSetter__'', ''__lookupGetter__'', ''__lookupSetter__'']"

definition in_target :: "jsstring \<Rightarrow> bool" where
  "in_target key = (key \<in> set (WebStorage_members @ Object_prototype_members))"

text \<open>
  \<open>target[key]\<close> for a name that is a member, on a facade whose members were not assigned to:
  the storage object for \<open>storage\<close>, the namespace (a string or \<open>null\<close>) for the field
  \<open>currentNamespace\<close> and the getter \<open>namespace\<close>, the number of keys for the getter \<open>length\<close>
  (which throws when \<open>getStorageKeys\<close> does), the prototype object for \<open>__proto__\<close>, and for
  every other member the function of that name.
\<close>

datatype 'v property =
    FromStorage 'v
  | Method jsstring
  | StringOrNull "jsstring option"
  | NumberValue nat
  | StorageObject
  | PrototypeObject

definition target_member :: "'st WebStorage \<Rightarrow> 'st \<Rightarrow> jsstring \<Rightarrow> fault + 'v property" where
  "target_member ws st key =
     (if key = js ''storage'' then Inr StorageObject
      else if key = js ''currentNamespace'' then Inr (StringOrNull (currentNamespace ws))
      else if key = js ''namespace'' then Inr (StringOrNull (namespace ws))
      else if key = js ''length'' then
        (case WebStorage_length ws st of Inl e \<Rightarrow> Inl e | Inr n \<Rightarrow> Inr (NumberValue n))
      else if key = js ''__proto__'' then Inr PrototypeObject
      else Inr (Method key))"

text \<open>
  The \<open>get\<close> trap of the proxy, for a string key. A name that is not a member is looked up in
  the storage and parsed (\<open>JSON.parse\<close> converts what \<open>getItem\<close> returned to a string); for a
  member the trap returns \<open>target[key]\<close>.
\<close>

definition createProxy_get ::
  "'v JSON \<Rightarrow> 'st WebStorage \<Rightarrow> 'st \<Rightarrow> jsstring \<Rightarrow> fault + 'v property" where
  "createProxy_get json ws st key =
     (if \<not> in_target key
      then (case JSON_parse json
                  (ToString_item (Storage_getItem (storage ws) st (keyWithNamespace ws key))) of
              Inl e \<Rightarrow> Inl e
            | Inr v \<Rightarrow> Inr (FromStorage v))
      else target_member ws st key)"

text \<open>
  The iterators (the synchronous and the asynchronous one have the same body): the pairs
  \<open>[this[key], key]\<close> for the keys of \<open>getStorageKeys\<close>, in order. \<open>this\<close> is the proxy, so
  \<open>this[key]\<close> goes through its \<open>get\<close> trap, with the key converted to a property name. The
  model gives the pairs that an iteration over an unchanged storage yields, and the exception
  when one ended it.
\<close>

fun WebStorage_iterator_loop ::
  "'v JSON \<Rightarrow> 'st WebStorage \<Rightarrow> 'st \<Rightarrow> jsstring option list \<Rightarrow>
     ('v property \<times> jsstring option) list \<times> fault option" where
  "WebStorage_iterator_loop json ws st [] = ([], None)"
| "WebStorage_iterator_loop json ws st (key # keys) =
     (case createProxy_get json ws st (ToString key) of
        Inl e \<Rightarrow> ([], Some e)
      | Inr v \<Rightarrow>
          (case WebStorage_iterator_loop json ws st keys of
             (rest, f) \<Rightarrow> ((v, key) # rest, f)))"

definition WebStorage_iterator ::
  "'v JSON \<Rightarrow> 'st WebStorage \<Rightarrow> 'st \<Rightarrow>
     ('v property \<times> jsstring option) list \<times> fault option" where
  "WebStorage_iterator json ws st =
     (case getStorageKeys ws st of
        Inl e \<Rightarrow> ([], Some e)
      | Inr keys \<Rightarrow> WebStorage_iterator_loop json ws st keys)"

section \<open>Instances for running the model\<close>

text \<open>
  A small instance of the JSON service, on four values: \<open>null\<close>, the booleans, an object
  that contains itself, and \<open>undefined\<close>. On these values it is what \<open>JSON.stringify\<close> and
  \<open>JSON.parse\<close> do: the texts \<^verbatim>\<open>null\<close>, \<^verbatim>\<open>true\<close> and \<^verbatim>\<open>false\<close>, a \<open>TypeError\<close> for the
  cycle, and \<open>undefined\<close> in place of a text for \<open>undefined\<close>.
\<close>

datatype jsvalue = JNull | JBool bool | JCyclic | JUndefined

definition sample_stringify :: "jsvalue \<Rightarrow> fault + jstext" where
  "sample_stringify v =
     (case v of
        JNull \<Rightarrow> Inr (Str (js ''null''))
      | JBool b \<Rightarrow> Inr (Str (if b then js ''true'' else js ''false''))
      | JCyclic \<Rightarrow> Inl TypeError
      | JUndefined \<Rightarrow> Inr Undefined)"

definition sample_parse :: "jsstring \<Rightarrow> fault + jsvalue" where
  "sample_parse text =
     (if text = js ''null'' then Inr JNull
      else if text = js ''true'' then Inr (JBool True)
      else if text = js ''false'' then Inr (JBool False)
      else Inl SyntaxError)"

definition sample_JSON :: "jsvalue JSON" where
  "sample_JSON = \<lparr> JSON_stringify = sample_stringify, JSON_parse = sample_parse \<rparr>"

text \<open>A storage that has no room left: \<open>MemoryStorage\<close>, except that every \<open>setItem\<close> throws.\<close>

definition FullStorage :: "items Storage" where
  "FullStorage = MemoryStorage \<lparr> Storage_setItem := (\<lambda>m k v. (m, Some QuotaExceededError)) \<rparr>"

text \<open>The keys that a storage enumerates: \<open>key(0)\<close>, ..., \<open>key(length - 1)\<close>.\<close>

definition Storage_keys :: "'st Storage \<Rightarrow> 'st \<Rightarrow> jsstring option list" where
  "Storage_keys s st = map (\<lambda>i. Storage_key s st (int i)) [0..<Storage_length s st]"

text \<open>What \<open>MemoryStorage.key\<close> returns at the position of the key \<open>k\<close>.\<close>

definition keyOrNull :: "jsstring \<Rightarrow> jsstring option" where
  "keyOrNull k = (if k = [] then None else Some k)"

section \<open>Basic facts\<close>

declare getStorageKeys_loop.simps [simp del]

lemmas eval_defs = getStorageKeys_def getStorageKeys_loop.simps MemoryStorage_def
  MemoryStorage_length_def MemoryStorage_key_def MemoryStorage_getItem_def
  MemoryStorage_setItem_def MemoryStorage_removeItem_def Map_has_def Map_get_def Map_set_def
  Map_delete_def namespace_def hasNamespace_def keyWithNamespace_def
  js_def ToString_def ToString_item_def slash_def isLineTerminator_def startsWith_def substr_def
  WebStorage_constructor_def WebStorage_set_def WebStorage_set_try_def WebStorage_get_def
  WebStorage_has_def WebStorage_keys_def WebStorage_key_def WebStorage_length_def
  WebStorage_clear_def keyWithNamespace_element_def WebStorage_iterator_def createProxy_get_def
  target_member_def in_target_def WebStorage_members_def Object_prototype_members_def
  sample_JSON_def sample_stringify_def sample_parse_def FullStorage_def

lemma MemoryStorage_sel [simp]:
  "Storage_length MemoryStorage m = length m"
  "Storage_key MemoryStorage m i = MemoryStorage_key m i"
  "Storage_getItem MemoryStorage m k = map_of m k"
  "Storage_setItem MemoryStorage m k v = (Map_set m k v, None)"
  "Storage_removeItem MemoryStorage m None = (m, None)"
  "Storage_removeItem MemoryStorage m (Some k) = (Map_delete m k, None)"
  by (auto simp: MemoryStorage_def MemoryStorage_length_def MemoryStorage_getItem_def
      MemoryStorage_setItem_def MemoryStorage_removeItem_def Map_has_def Map_get_def
      map_of_eq_None_iff [symmetric] simp del: map_of_eq_None_iff split: option.splits)

lemma MemoryStorage_key_nth:
  "i < length m \<Longrightarrow> MemoryStorage_key m (int i) = keyOrNull (fst (m ! i))"
  by (simp add: MemoryStorage_key_def keyOrNull_def)

lemma Storage_keys_MemoryStorage: "Storage_keys MemoryStorage m = map keyOrNull (map fst m)"
  by (rule nth_equalityI) (simp_all add: Storage_keys_def MemoryStorage_key_nth)

lemma drop_Storage_keys:
  assumes "i < Storage_length s st"
  shows "drop i (Storage_keys s st) = Storage_key s st (int i) # drop (Suc i) (Storage_keys s st)"
proof -
  have "i < length (Storage_keys s st)" using assms by (simp add: Storage_keys_def)
  then have "drop i (Storage_keys s st) = Storage_keys s st ! i # drop (Suc i) (Storage_keys s st)"
    by (simp add: Cons_nth_drop_Suc)
  then show ?thesis using assms by (simp add: Storage_keys_def)
qed

lemma drop_Storage_keys_end:
  "\<not> i < Storage_length s st \<Longrightarrow> drop i (Storage_keys s st) = []"
  by (simp add: Storage_keys_def)


lemma loop_named:
  assumes "namespace ws = Some n"
  shows "getStorageKeys_loop ws st i acc =
           (if None \<in> set (drop i (Storage_keys (storage ws) st)) then Inl TypeError
            else Inr (acc @ map (\<lambda>k. Some (substr k (length n + 1)))
                  (filter (\<lambda>k. startsWith k (n @ [slash]))
                     (map the (drop i (Storage_keys (storage ws) st))))))"
proof (induction "Storage_length (storage ws) st - i" arbitrary: i acc)
  case 0
  then show ?case using assms
    by (subst getStorageKeys_loop.simps) (simp add: drop_Storage_keys_end)
next
  case (Suc d)
  then have lt: "i < Storage_length (storage ws) st"
    and d: "d = Storage_length (storage ws) st - Suc i" by auto
  show ?case
    using assms lt Suc.hyps(1) [OF d]
    by (subst getStorageKeys_loop.simps)
      (auto simp add: drop_Storage_keys [OF lt] split: option.splits)
qed


lemma getStorageKeys_named:
  assumes "namespace ws = Some n"
  shows "getStorageKeys ws st =
           (if None \<in> set (Storage_keys (storage ws) st) then Inl TypeError
            else Inr (map (\<lambda>k. Some (substr k (length n + 1)))
                  (filter (\<lambda>k. startsWith k (n @ [slash]))
                     (map the (Storage_keys (storage ws) st)))))"
  using loop_named [OF assms, of st 0 "[]"] by (simp add: getStorageKeys_def)








lemma map_fst_Map_set:
  "map fst (Map_set m k v) = (if k \<in> set (map fst m) then map fst m else map fst m @ [k])"
  by (induction m) (auto simp: Map_set_def Map_has_def)

lemma Map_set_has: "k \<in> set (map fst (Map_set m k v))"
  by (simp add: map_fst_Map_set)



lemma map_of_overwrite_other:
  "p \<noteq> k \<Longrightarrow> map_of (map (\<lambda>e. if fst e = k then (k, v) else e) m) p = map_of m p"
  by (induction m) auto

lemma map_of_Map_set_other: "p \<noteq> k \<Longrightarrow> map_of (Map_set m k v) p = map_of m p"
  by (auto simp: Map_set_def Map_has_def map_of_overwrite_other map_add_def split: option.splits)


text \<open>The test of the regular expression, in the words of the expression.\<close>

lemma RegExp_test_iff:
  "RegExp_test s \<longleftrightarrow>
     (\<exists>u v w x. s = u @ v @ [slash] @ w @ x \<and> v \<noteq> [] \<and> w \<noteq> []
        \<and> (\<forall>c \<in> set v. \<not> isLineTerminator c) \<and> (\<forall>c \<in> set w. \<not> isLineTerminator c))"
  (is "?L s \<longleftrightarrow> ?R s")
proof
  show "?L s \<Longrightarrow> ?R s"
  proof (induction s rule: RegExp_test.induct)
    case (1 a b c s)
    show ?case
    proof (cases "\<not> isLineTerminator a \<and> b = slash \<and> \<not> isLineTerminator c")
      case True
      then have "a # b # c # s = [] @ [a] @ [slash] @ [c] @ s \<and> [a] \<noteq> [] \<and> [c] \<noteq> []
        \<and> (\<forall>x \<in> set [a]. \<not> isLineTerminator x) \<and> (\<forall>x \<in> set [c]. \<not> isLineTerminator x)"
        by simp
      then show ?thesis by blast
    next
      case False
      with 1 obtain u v w x where "b # c # s = u @ v @ [slash] @ w @ x" "v \<noteq> []" "w \<noteq> []"
        "\<forall>c \<in> set v. \<not> isLineTerminator c" "\<forall>c \<in> set w. \<not> isLineTerminator c"
        by auto
      then have "a # b # c # s = (a # u) @ v @ [slash] @ w @ x \<and> v \<noteq> [] \<and> w \<noteq> []
        \<and> (\<forall>c \<in> set v. \<not> isLineTerminator c) \<and> (\<forall>c \<in> set w. \<not> isLineTerminator c)"
        by simp
      then show ?thesis by blast
    qed
  qed simp_all
next
  have mid: "RegExp_test (u @ a # slash # c # x)"
    if "\<not> isLineTerminator a" "\<not> isLineTerminator c" for u a c x
  proof (induction u)
    case Nil
    then show ?case using that by simp
  next
    case (Cons y u)
    then show ?case
      by (cases "u @ a # slash # c # x" rule: RegExp_test.cases) (auto simp: Cons_eq_append_conv)
  qed
  assume "?R s"
  then obtain u v w x where s: "s = u @ v @ [slash] @ w @ x" and "v \<noteq> []" "w \<noteq> []"
    and "\<forall>c \<in> set v. \<not> isLineTerminator c" "\<forall>c \<in> set w. \<not> isLineTerminator c"
    by blast
  then obtain v' a c w' where "v = v' @ [a]" "w = c # w'" "\<not> isLineTerminator a" "\<not> isLineTerminator c"
    by (metis append_butlast_last_id last_in_set list.set_intros(1) neq_Nil_conv)
  then have "s = (u @ v') @ a # slash # c # (w' @ x)" using s by simp
  then show "?L s" using mid [of a c] \<open>\<not> isLineTerminator a\<close> \<open>\<not> isLineTerminator c\<close> by metis
qed

lemma RegExp_test_not_Nil: "RegExp_test k \<Longrightarrow> k \<noteq> []"
  by auto



















lemma createProxy_get_is_get:
  assumes "\<not> in_target key"
    and "Storage_getItem (storage ws) st (keyWithNamespace ws key) \<noteq> None"
  shows "createProxy_get json ws st key =
           (case WebStorage_get json ws st key d of Inl e \<Rightarrow> Inl e | Inr v \<Rightarrow> Inr (FromStorage v))"
  using assms by (simp add: createProxy_get_def WebStorage_get_def)

section \<open>The claims\<close>




text \<open>
  C2, as the code has it. \<open>set\<close> never throws. It returns \<open>true\<close> exactly when neither
  \<open>JSON.stringify\<close> nor \<open>setItem\<close> throws, also when \<open>JSON.stringify\<close> returns \<open>undefined\<close>,
  which \<open>setItem\<close> then gets. It returns \<open>false\<close> when either of them throws, whatever the
  exception: a storage that is full, and a value that cannot be serialised as well. When
  \<open>JSON.stringify\<close> throws, \<open>setItem\<close> is not called and the storage is as it was; otherwise
  the storage is what the call of \<open>setItem\<close> left.
\<close>

theorem set_never_throws:
  "\<exists>ok st'. WebStorage_set json ws st key val = (Inr ok, st')
     \<and> (ok \<longleftrightarrow> (\<exists>t. JSON_stringify json val = Inr t
                 \<and> snd (Storage_setItem (storage ws) st (keyWithNamespace ws key) t) = None))
     \<and> (\<forall>e. JSON_stringify json val = Inl e \<longrightarrow> st' = st)
     \<and> (\<forall>t. JSON_stringify json val = Inr t
            \<longrightarrow> st' = fst (Storage_setItem (storage ws) st (keyWithNamespace ws key) t))"
  by (auto simp: WebStorage_set_def WebStorage_set_try_def split: sum.splits prod.splits option.splits)

theorem set_never_throws_witness:
  "WebStorage_set sample_JSON (WebStorage_constructor MemoryStorage None) [] (js ''k'') (JBool True)
     = (Inr True, [(js ''k'', Str (js ''true''))])
   \<and> WebStorage_set sample_JSON (WebStorage_constructor MemoryStorage None) [] (js ''k'') JUndefined
     = (Inr True, [(js ''k'', Undefined)])
   \<and> WebStorage_set sample_JSON (WebStorage_constructor FullStorage None) [] (js ''k'') (JBool True)
     = (Inr False, [])"
  using set_never_throws [of sample_JSON "WebStorage_constructor MemoryStorage None" "[]"
      "js ''k''" "JBool True"]
    set_never_throws [of sample_JSON "WebStorage_constructor MemoryStorage None" "[]"
      "js ''k''" JUndefined]
    set_never_throws [of sample_JSON "WebStorage_constructor FullStorage None" "[]"
      "js ''k''" "JBool True"]
  by (simp add: eval_defs)

text \<open>
  C2 as stated fails: a serialisation fault does not reach the caller. \<open>JSON.stringify\<close>
  throws a \<open>TypeError\<close> on the cyclic value, and \<open>set\<close> returns \<open>false\<close>.
\<close>

theorem set_swallows_serialization_fault:
  "JSON_stringify sample_JSON JCyclic = Inl TypeError
   \<and> WebStorage_set sample_JSON (WebStorage_constructor MemoryStorage None) [] (js ''k'') JCyclic
     = (Inr False, [])"
  by (simp add: eval_defs)



text \<open>
  C4 fails on the code. The physical key is \<open>x\<close>, \<open>/\<close> and a line feed: both segments are
  non-empty, but \<open>.\<close> does not match the line feed, so the test of the expression fails and
  the facade without namespace lists the key and counts it (and the facade with namespace
  \<open>x\<close> lists its logical key too). The key \<^verbatim>\<open>"x/y"\<close> is excluded, as the claim says.
\<close>

theorem null_view_lists_key_with_line_terminator:
  "getStorageKeys (WebStorage_constructor MemoryStorage None) [(js ''x/'' @ [0x0A], Str (js ''true''))]
     = Inr [Some (js ''x/'' @ [0x0A])]
   \<and> WebStorage_length (WebStorage_constructor MemoryStorage None)
        [(js ''x/'' @ [0x0A], Str (js ''true''))] = Inr 1
   \<and> getStorageKeys (WebStorage_constructor MemoryStorage (Some (js ''x'')))
        [(js ''x/'' @ [0x0A], Str (js ''true''))] = Inr [Some [0x0A]]
   \<and> getStorageKeys (WebStorage_constructor MemoryStorage None) [(js ''x/y'', Str (js ''true''))]
     = Inr []"
  by (simp add: eval_defs)




text \<open>
  C6 fails on the code. The storage holds the text \<^verbatim>\<open>true\<close> under the key \<^verbatim>\<open>"get"\<close>.
  \<open>keys()\<close> lists the key and \<open>get("get")\<close> returns \<open>true\<close>, but the iterator reads
  \<open>this["get"]\<close>, which the proxy answers with the member \<open>get\<close> of the facade, a function:
  the pair it yields is not the pair of \<open>get\<close>.
\<close>

theorem iterator_yields_member_for_colliding_key:
  "WebStorage_keys (WebStorage_constructor MemoryStorage None) [(js ''get'', Str (js ''true''))]
     = Inr [Some (js ''get'')]
   \<and> WebStorage_get sample_JSON (WebStorage_constructor MemoryStorage None)
        [(js ''get'', Str (js ''true''))] (js ''get'') JNull = Inr (JBool True)
   \<and> WebStorage_iterator sample_JSON (WebStorage_constructor MemoryStorage None)
        [(js ''get'', Str (js ''true''))] = ([(Method (js ''get''), Some (js ''get''))], None)"
  by (simp add: eval_defs)

text \<open>
  C7. With a namespace \<open>n\<close>, the physical key of a logical key starts with \<open>n\<close> and \<open>/\<close>, and
  \<open>substr\<close> past this prefix gives the logical key back. In the loop of \<open>getStorageKeys\<close>: an
  entry under the physical key, added to a \<open>MemoryStorage\<close>, adds the logical key to the keys
  of the facade.
\<close>

theorem namespace_codec_round_trip:
  assumes "namespace ws = Some n"
  shows "startsWith (keyWithNamespace ws key) (n @ [slash])
     \<and> substr (keyWithNamespace ws key) (length n + 1) = key
     \<and> (storage ws = MemoryStorage \<longrightarrow>
          getStorageKeys ws (m @ [(keyWithNamespace ws key, v)]) =
            (case getStorageKeys ws m of Inl e \<Rightarrow> Inl e | Inr keys \<Rightarrow> Inr (keys @ [Some key])))"
proof -
  have k: "keyWithNamespace ws key = n @ [slash] @ key"
    using assms by (simp add: keyWithNamespace_def hasNamespace_def ToString_def)
  have a: "startsWith (keyWithNamespace ws key) (n @ [slash])"
    by (simp add: k startsWith_def)
  have b: "substr (keyWithNamespace ws key) (length n + 1) = key"
    by (simp add: k substr_def)
  have c: "keyWithNamespace ws key \<noteq> []" by (simp add: k)
  have "getStorageKeys ws (m @ [(keyWithNamespace ws key, v)]) =
            (case getStorageKeys ws m of Inl e \<Rightarrow> Inl e | Inr keys \<Rightarrow> Inr (keys @ [Some key]))"
    if "storage ws = MemoryStorage"
    using a b c that
    by (simp add: getStorageKeys_named [OF assms] Storage_keys_MemoryStorage keyOrNull_def)
  then show ?thesis using a b by blast
qed

theorem namespace_codec_round_trip_witness:
  "namespace (WebStorage_constructor MemoryStorage (Some (js ''ns''))) = Some (js ''ns'')
   \<and> keyWithNamespace (WebStorage_constructor MemoryStorage (Some (js ''ns''))) (js ''a/b'')
       = js ''ns/a/b''
   \<and> substr (js ''ns/a/b'') 3 = js ''a/b''
   \<and> getStorageKeys (WebStorage_constructor MemoryStorage (Some (js ''ns'')))
        [(js ''x'', Str (js ''1'')), (js ''ns/a/b'', Str (js ''2''))] = Inr [Some (js ''a/b'')]"
proof -
  let ?ws = "WebStorage_constructor MemoryStorage (Some (js ''ns''))"
  have n: "namespace ?ws = Some (js ''ns'')"
    by (simp add: eval_defs)
  show ?thesis
    using n namespace_codec_round_trip [OF n, of "js ''a/b''" "[(js ''x'', Str (js ''1''))]" "Str (js ''2'')"]
    by (simp add: eval_defs)
qed

text \<open>
  C8 fails on the code. \<open>key(index)\<close> of the facade reads the array of keys at \<open>index\<close> and
  returns what it finds: outside the array that is \<open>undefined\<close>, not \<open>null\<close>. The facade holds
  one key here; \<open>key(0)\<close> is that key, \<open>key(5)\<close> is \<open>undefined\<close>, where \<open>key(5)\<close> of the
  \<open>MemoryStorage\<close> under it is \<open>null\<close>.
\<close>

theorem key_out_of_range_is_undefined:
  "WebStorage_key (WebStorage_constructor MemoryStorage None) [(js ''k'', Str (js ''true''))] 0
     = Inr (KString (js ''k''))
   \<and> WebStorage_key (WebStorage_constructor MemoryStorage None) [(js ''k'', Str (js ''true''))] 5
     = Inr KUndefined
   \<and> MemoryStorage_key [(js ''k'', Str (js ''true''))] 5 = None"
  by (simp add: eval_defs)

text \<open>
  C9. The constructor turns the empty string into \<open>null\<close>: the facade built with namespace
  \<^verbatim>\<open>""\<close> is the facade built with no namespace, \<open>hasNamespace()\<close> is \<open>false\<close>, \<open>namespace\<close>
  is \<open>null\<close>, and a key is its own physical key.
\<close>

theorem empty_namespace_is_no_namespace:
  "WebStorage_constructor s (Some []) = WebStorage_constructor s None
   \<and> \<not> hasNamespace (WebStorage_constructor s (Some []))
   \<and> namespace (WebStorage_constructor s (Some [])) = None
   \<and> keyWithNamespace (WebStorage_constructor s (Some [])) key = key"
  by (simp add: WebStorage_constructor_def hasNamespace_def namespace_def keyWithNamespace_def)

text \<open>
  C10. \<open>MemoryStorage.key(index)\<close> is \<open>null\<close> for every index at or past \<open>length\<close>; it is
  also \<open>null\<close> at a position within \<open>length\<close> whose key is the empty string; and after
  \<open>setItem("", v)\<close> there is such a position. So \<open>null\<close> does not tell that the index is out
  of range.
\<close>

theorem MemoryStorage_key_null_for_empty_key:
  "(\<forall>index. int (MemoryStorage_length m) \<le> index \<longrightarrow> MemoryStorage_key m index = None)
   \<and> (\<forall>index. 0 \<le> index \<and> index < int (MemoryStorage_length m) \<and> fst (m ! nat index) = []
          \<longrightarrow> MemoryStorage_key m index = None)
   \<and> (\<exists>index. 0 \<le> index \<and> index < int (MemoryStorage_length (MemoryStorage_setItem m [] v))
          \<and> MemoryStorage_key (MemoryStorage_setItem m [] v) index = None)"
proof -
  let ?m' = "MemoryStorage_setItem m [] v"
  have "[] \<in> set (map fst ?m')"
    unfolding MemoryStorage_setItem_def by (rule Map_set_has)
  then obtain i where i: "i < length ?m'" "fst (?m' ! i) = []"
    by (auto simp: in_set_conv_nth)
  then have "0 \<le> int i \<and> int i < int (MemoryStorage_length ?m')
      \<and> MemoryStorage_key ?m' (int i) = None"
    by (simp add: MemoryStorage_key_def MemoryStorage_length_def)
  then have "\<exists>index. 0 \<le> index \<and> index < int (MemoryStorage_length ?m')
      \<and> MemoryStorage_key ?m' index = None" by blast
  moreover have "\<forall>index. int (MemoryStorage_length m) \<le> index \<longrightarrow> MemoryStorage_key m index = None"
    by (simp add: MemoryStorage_key_def MemoryStorage_length_def)
  moreover have "\<forall>index. 0 \<le> index \<and> index < int (MemoryStorage_length m) \<and> fst (m ! nat index) = []
          \<longrightarrow> MemoryStorage_key m index = None"
    by (simp add: MemoryStorage_key_def MemoryStorage_length_def)
  ultimately show ?thesis by blast
qed

theorem MemoryStorage_key_null_for_empty_key_witness:
  "MemoryStorage_length [([], Str (js ''1''))] = 1
   \<and> MemoryStorage_key [([], Str (js ''1''))] 0 = None
   \<and> MemoryStorage_key [([], Str (js ''1''))] 1 = None
   \<and> MemoryStorage_setItem [] [] (Str (js ''1'')) = [([], Str (js ''1''))]"
  using MemoryStorage_key_null_for_empty_key [of "[([], Str (js ''1''))]" "Str (js ''1'')"]
  by (simp add: MemoryStorage_length_def MemoryStorage_setItem_def Map_set_def Map_has_def
      MemoryStorage_key_def)

end
